theory Spec2Isabelle
  imports Main "HOL-Library.Word" "HOL-Library.Log_Nat" "HOL-Library.Monad_Syntax"
begin

section \<open>Double-precision values\<close>

text \<open>
  The C type \<^verbatim>\<open>double\<close> is IEEE-754 binary64: a sign bit, an 11-bit biased exponent
  and a 52-bit fraction. The values are modelled at the level of the standard that has
  one NaN (the standard does not interpret the sign or the payload of a NaN):
  \<^item> \<open>Num s e f\<close> is the finite number with sign \<open>s\<close> (\<open>True\<close> is negative), biased
    exponent \<open>e\<close> and fraction \<open>f\<close>: a subnormal number or a zero when \<open>e = 0\<close>, a
    normal number when \<open>0 < e < 2047\<close>;
  \<^item> \<open>Infty s\<close> is the infinity of sign \<open>s\<close>;
  \<^item> \<open>NaN\<close> is not-a-number.
  The exponent field \<open>2047\<close> encodes the infinities and NaN, so \<open>Num s 2047 f\<close> is the
  value of no \<^verbatim>\<open>double\<close>: \<open>is_double\<close> and \<open>is_finite\<close> leave it out, and no
  multiplication returns it (\<open>fmul_is_double\<close>).
\<close>

datatype double = Num bool "11 word" "52 word" | Infty bool | NaN

definition is_finite :: "double \<Rightarrow> bool" where
  "is_finite x = (case x of Num s e f \<Rightarrow> e \<noteq> 2047 | Infty s \<Rightarrow> False | NaN \<Rightarrow> False)"

definition is_zero :: "double \<Rightarrow> bool" where
  "is_zero x = (case x of Num s e f \<Rightarrow> e = 0 \<and> f = 0 | Infty s \<Rightarrow> False | NaN \<Rightarrow> False)"

definition is_double :: "double \<Rightarrow> bool" where
  "is_double x = (case x of Num s e f \<Rightarrow> e \<noteq> 2047 | Infty s \<Rightarrow> True | NaN \<Rightarrow> True)"

text \<open>Unary minus of C: the sign bit is flipped.\<close>

fun fneg :: "double \<Rightarrow> double" where
  "fneg (Num s e f) = Num (\<not> s) e f"
| "fneg (Infty s) = Infty (\<not> s)"
| "fneg NaN = NaN"

text \<open>
  A finite number \<open>Num s e f\<close> is \<open>significand e f * 2 ^ exponent e\<close> in magnitude: the
  significand has the hidden bit of a normal number, and the exponent is the weight of
  the last bit of the significand.
\<close>

definition significand :: "11 word \<Rightarrow> 52 word \<Rightarrow> nat" where
  "significand e f = (if e = 0 then unat f else 2 ^ 52 + unat f)"

definition exponent :: "11 word \<Rightarrow> int" where
  "exponent e = (if e = 0 then 1 else int (unat e)) - 1075"

text \<open>\<open>round_even P k\<close> is \<open>P / 2 ^ k\<close> rounded to the nearest integer, a tie to the even one.\<close>

definition round_even :: "nat \<Rightarrow> nat \<Rightarrow> nat" where
  "round_even P k =
     (let q = P div 2 ^ k; r = P mod 2 ^ k
      in if 2 ^ k < 2 * r then q + 1
         else if 2 * r = 2 ^ k then (if even q then q else q + 1)
         else q)"

text \<open>
  \<open>round_finite s P Q\<close> is the double nearest to the exact value \<open>P * 2 ^ Q\<close> with sign
  \<open>s\<close>, in the default rounding mode (to nearest, ties to even): the value is cut to 53
  significant bits, or to the multiples of \<open>2 ^ -1074\<close> in the subnormal range, and a
  result beyond the largest finite double is an infinity.
\<close>

definition round_finite :: "bool \<Rightarrow> nat \<Rightarrow> int \<Rightarrow> double" where
  "round_finite s P Q =
     (if P = 0 then Num s 0 0
      else
        let E = max (Q + int (floorlog 2 P) - 53) (- 1074);
            M = (if E \<le> Q then P * 2 ^ nat (Q - E) else round_even P (nat (E - Q)));
            E' = (if M = 2 ^ 53 then E + 1 else E);
            M' = (if M = 2 ^ 53 then 2 ^ 52 else M)
        in if M' < 2 ^ 52 then Num s 0 (of_nat M')
           else if 2047 \<le> E' + 1075 then Infty s
           else Num s (of_nat (nat (E' + 1075))) (of_nat (M' - 2 ^ 52)))"

text \<open>
  The operator \<^verbatim>\<open>*\<close> of C on doubles: IEEE-754 multiplication, each product rounded
  to a double. The sign of the result is the exclusive or of the signs; infinity times
  zero is NaN; a product of finite numbers is the exact product, rounded.
\<close>

fun fmul :: "double \<Rightarrow> double \<Rightarrow> double" where
  "fmul NaN y = NaN"
| "fmul (Infty s) NaN = NaN"
| "fmul (Num s e f) NaN = NaN"
| "fmul (Infty s) (Infty t) = Infty (s \<noteq> t)"
| "fmul (Infty s) (Num t e f) = (if significand e f = 0 then NaN else Infty (s \<noteq> t))"
| "fmul (Num s e f) (Infty t) = (if significand e f = 0 then NaN else Infty (s \<noteq> t))"
| "fmul (Num s e f) (Num t e' f') =
     round_finite (s \<noteq> t) (significand e f * significand e' f') (exponent e + exponent e')"

text \<open>
  The functions \<^verbatim>\<open>sin\<close> and \<^verbatim>\<open>cos\<close> of \<^verbatim>\<open>math.h\<close> belong to the platform's C
  library, not to the repository: they are parameters of the model.
\<close>

record math_h =
  sin_d :: "double \<Rightarrow> double"
  cos_d :: "double \<Rightarrow> double"

section \<open>The vector type\<close>

text \<open>
  \<^verbatim>\<open>struct sbh_vec4 { double dat[4]; }\<close>: an array of exactly four doubles. An access
  \<^verbatim>\<open>dat[i]\<close> is defined for \<open>i < 4\<close> only; the model returns \<open>None\<close> for any other index.
\<close>

datatype array4 = Array4 double double double double

fun array4_get :: "array4 \<Rightarrow> nat \<Rightarrow> double option" where
  "array4_get (Array4 a b c d) i =
     (if i = 0 then Some a else if i = 1 then Some b
      else if i = 2 then Some c else if i = 3 then Some d else None)"

fun array4_set :: "array4 \<Rightarrow> nat \<Rightarrow> double \<Rightarrow> array4 option" where
  "array4_set (Array4 a b c d) i x =
     (if i = 0 then Some (Array4 x b c d) else if i = 1 then Some (Array4 a x c d)
      else if i = 2 then Some (Array4 a b x d) else if i = 3 then Some (Array4 a b c x)
      else None)"

record sbh_vec4 =
  dat :: array4

text \<open>The read \<^verbatim>\<open>p.dat[i]\<close> and the assignment \<^verbatim>\<open>p.dat[i] = x\<close>.\<close>

definition load :: "sbh_vec4 \<Rightarrow> nat \<Rightarrow> double option" where
  "load p i = array4_get (dat p) i"

definition store :: "sbh_vec4 \<Rightarrow> nat \<Rightarrow> double \<Rightarrow> sbh_vec4 option" where
  "store p i x = map_option (\<lambda>a. p\<lparr>dat := a\<rparr>) (array4_set (dat p) i x)"

section \<open>The operations of \<^verbatim>\<open>sbh_vec4.h\<close>\<close>

text \<open>
  A function that declares \<^verbatim>\<open>struct sbh_vec4 p;\<close> starts from a variable whose contents
  are indeterminate. The model takes these contents as the argument \<open>p\<close> and assigns to
  it as the code does. A result \<open>None\<close> stands for an access outside the array.
\<close>

definition sbh_vec4_rect ::
  "sbh_vec4 \<Rightarrow> double \<Rightarrow> double \<Rightarrow> double \<Rightarrow> double \<Rightarrow> sbh_vec4 option" where
  "sbh_vec4_rect p x y z t =
     do {
       p \<leftarrow> store p 0 x;
       p \<leftarrow> store p 1 y;
       p \<leftarrow> store p 2 z;
       p \<leftarrow> store p 3 t;
       Some p
     }"

definition sbh_vec4_rect_from_schwarzschild ::
  "math_h \<Rightarrow> sbh_vec4 \<Rightarrow> double \<Rightarrow> double \<Rightarrow> double \<Rightarrow> double \<Rightarrow> sbh_vec4 option" where
  "sbh_vec4_rect_from_schwarzschild L p r phi theta t =
     (let sin_phi = sin_d L phi;
          cos_phi = cos_d L phi;
          sin_theta = sin_d L theta;
          cos_theta = cos_d L theta
      in do {
        p \<leftarrow> store p 0 (fmul (fmul r sin_theta) cos_phi);
        p \<leftarrow> store p 1 (fmul (fmul r sin_theta) sin_phi);
        p \<leftarrow> store p 2 (fmul r cos_theta);
        p \<leftarrow> store p 3 t;
        Some p
      })"

text \<open>
  \<^verbatim>\<open>sbh_vec4_schwarzschild_to_rect\<close> reads the four slots of \<^verbatim>\<open>*q\<close> and passes them on;
  \<open>p\<close> is the local variable of the function it calls.
\<close>

definition sbh_vec4_schwarzschild_to_rect ::
  "math_h \<Rightarrow> sbh_vec4 \<Rightarrow> sbh_vec4 \<Rightarrow> sbh_vec4 option" where
  "sbh_vec4_schwarzschild_to_rect L p q =
     do {
       q0 \<leftarrow> load q 0;
       q1 \<leftarrow> load q 1;
       q2 \<leftarrow> load q 2;
       q3 \<leftarrow> load q 3;
       sbh_vec4_rect_from_schwarzschild L p q0 q1 q2 q3
     }"

text \<open>
  \<^verbatim>\<open>sbh_vec4_convert_schwarzschild_to_rect\<close> works on the vector its argument points to:
  the model takes the vector and returns it as the function leaves it. The reads and
  the assignments are in the order of the code.
\<close>

definition sbh_vec4_convert_schwarzschild_to_rect ::
  "math_h \<Rightarrow> sbh_vec4 \<Rightarrow> sbh_vec4 option" where
  "sbh_vec4_convert_schwarzschild_to_rect L p =
     do {
       r \<leftarrow> load p 0;
       p1 \<leftarrow> load p 1;
       let sin_phi = sin_d L p1;
       p1 \<leftarrow> load p 1;
       let cos_phi = cos_d L p1;
       p2 \<leftarrow> load p 2;
       let sin_theta = sin_d L p2;
       p2 \<leftarrow> load p 2;
       let cos_theta = cos_d L p2;
       p \<leftarrow> store p 0 (fmul (fmul r sin_theta) cos_phi);
       p \<leftarrow> store p 1 (fmul (fmul r sin_theta) sin_phi);
       p \<leftarrow> store p 2 (fmul r cos_theta);
       Some p
     }"

section \<open>Constants\<close>

text \<open>The doubles \<open>+0\<close>, \<open>1\<close>, \<open>2\<close>, \<open>3\<close> and \<open>4\<close>, by their fields.\<close>

definition d_zero :: double where "d_zero = Num False 0 0"
definition d_one :: double where "d_one = Num False 1023 0"
definition d_two :: double where "d_two = Num False 1024 0"
definition d_three :: double where "d_three = Num False 1024 2251799813685248"
definition d_four :: double where "d_four = Num False 1025 0"

text \<open>
  \<^verbatim>\<open>M_PI\<close>, the double nearest to \<open>\<pi>\<close> (bits \<^verbatim>\<open>0x400921FB54442D18\<close>), and the double
  nearest to the sine of that number, \<open>1.2246467991473532e-16\<close> (bits
  \<^verbatim>\<open>0x3CA1A62633145C07\<close>).
\<close>

definition d_pi :: double where "d_pi = Num False 1024 2570638124657944"
definition d_sin_pi :: double where "d_sin_pi = Num False 970 464157972651015"

text \<open>
  The examples below need the library's answers at a few arguments. \<open>libm_values\<close> holds
  the values that \<^verbatim>\<open>sin\<close> and \<^verbatim>\<open>cos\<close> of an IEEE-754 C library return there: at \<open>+0\<close>
  the exact \<open>+0\<close> and \<open>1\<close>, at \<^verbatim>\<open>M_PI\<close> the doubles nearest to the sine and the cosine of
  that number, and NaN at NaN. No example reads the table at any other argument (it
  answers NaN there).
\<close>

definition tabulated :: "(double \<times> double) list \<Rightarrow> double \<Rightarrow> double" where
  "tabulated tbl x = (case map_of tbl x of Some y \<Rightarrow> y | None \<Rightarrow> NaN)"

definition libm_values :: math_h where
  "libm_values =
     \<lparr>sin_d = tabulated [(d_zero, d_zero), (d_pi, d_sin_pi)],
      cos_d = tabulated [(d_zero, d_one), (d_pi, fneg d_one)]\<rparr>"

section \<open>Stores and loads\<close>

lemma store_Array4:
  "store \<lparr>dat = Array4 a b c d\<rparr> 0 x = Some \<lparr>dat = Array4 x b c d\<rparr>"
  "store \<lparr>dat = Array4 a b c d\<rparr> 1 x = Some \<lparr>dat = Array4 a x c d\<rparr>"
  "store \<lparr>dat = Array4 a b c d\<rparr> 2 x = Some \<lparr>dat = Array4 a b x d\<rparr>"
  "store \<lparr>dat = Array4 a b c d\<rparr> 3 x = Some \<lparr>dat = Array4 a b c x\<rparr>"
  "store \<lparr>dat = Array4 a b c d\<rparr> (Suc 0) x = Some \<lparr>dat = Array4 a x c d\<rparr>"
  by (simp_all add: store_def)

lemma load_Array4:
  "load \<lparr>dat = Array4 a b c d\<rparr> 0 = Some a"
  "load \<lparr>dat = Array4 a b c d\<rparr> 1 = Some b"
  "load \<lparr>dat = Array4 a b c d\<rparr> 2 = Some c"
  "load \<lparr>dat = Array4 a b c d\<rparr> 3 = Some d"
  "load \<lparr>dat = Array4 a b c d\<rparr> (Suc 0) = Some b"
  by (simp_all add: load_def)

lemma sbh_vec4_cases:
  obtains a b c d where "v = \<lparr>dat = Array4 a b c d\<rparr>"
proof (cases v)
  case (fields arr)
  then show ?thesis
    by (cases arr) (auto intro: that)
qed

lemma sbh_vec4_rect_value:
  "sbh_vec4_rect p x y z t = Some \<lparr>dat = Array4 x y z t\<rparr>"
  by (rule sbh_vec4_cases [of p]) (simp add: sbh_vec4_rect_def store_Array4)

lemma from_schwarzschild_value:
  "sbh_vec4_rect_from_schwarzschild L p r phi theta t =
     Some \<lparr>dat = Array4 (fmul (fmul r (sin_d L theta)) (cos_d L phi))
                        (fmul (fmul r (sin_d L theta)) (sin_d L phi))
                        (fmul r (cos_d L theta)) t\<rparr>"
  by (rule sbh_vec4_cases [of p])
    (simp add: sbh_vec4_rect_from_schwarzschild_def store_Array4 Let_def)

lemma schwarzschild_to_rect_value:
  "sbh_vec4_schwarzschild_to_rect L p \<lparr>dat = Array4 r phi theta t\<rparr> =
     Some \<lparr>dat = Array4 (fmul (fmul r (sin_d L theta)) (cos_d L phi))
                        (fmul (fmul r (sin_d L theta)) (sin_d L phi))
                        (fmul r (cos_d L theta)) t\<rparr>"
  by (simp add: sbh_vec4_schwarzschild_to_rect_def load_Array4 from_schwarzschild_value)

lemma convert_schwarzschild_to_rect_value:
  "sbh_vec4_convert_schwarzschild_to_rect L \<lparr>dat = Array4 r phi theta t\<rparr> =
     Some \<lparr>dat = Array4 (fmul (fmul r (sin_d L theta)) (cos_d L phi))
                        (fmul (fmul r (sin_d L theta)) (sin_d L phi))
                        (fmul r (cos_d L theta)) t\<rparr>"
  by (simp add: sbh_vec4_convert_schwarzschild_to_rect_def load_Array4 store_Array4 Let_def)

section \<open>Multiplication of doubles\<close>






lemma fmul_zero_left: "is_zero a \<Longrightarrow> is_finite b \<Longrightarrow> is_zero (fmul a b)"
  by (cases a; cases b) (simp_all add: is_zero_def is_finite_def significand_def round_finite_def)


lemma round_even_nearest:
  "2 * P \<le> (2 * round_even P k + 1) * 2 ^ k \<and> 2 * round_even P k * 2 ^ k \<le> 2 * P + 2 ^ k"
proof -
  define q where "q = P div 2 ^ k"
  define r where "r = P mod 2 ^ k"
  have P: "P = q * 2 ^ k + r"
    unfolding q_def r_def by (rule div_mult_mod_eq [symmetric])
  have r: "r < 2 ^ k"
    by (simp add: r_def)
  have cases: "round_even P k = q \<and> 2 * r \<le> 2 ^ k \<or> round_even P k = q + 1 \<and> 2 ^ k \<le> 2 * r"
    unfolding round_even_def Let_def q_def [symmetric] r_def [symmetric]
    by auto
  then show ?thesis
  proof
    assume "round_even P k = q \<and> 2 * r \<le> 2 ^ k"
    then show ?thesis
      using r by (simp add: P algebra_simps)
  next
    assume "round_even P k = q + 1 \<and> 2 ^ k \<le> 2 * r"
    then show ?thesis
      using r by (simp add: P algebra_simps)
  qed
qed

lemma round_even_tie:
  "2 * (P mod 2 ^ k) = 2 ^ k \<Longrightarrow> even (round_even P k)"
  by (simp add: round_even_def Let_def)













text \<open>Every product is a double: the exponent field \<open>2047\<close> is never built.\<close>

lemma bexp_of_nat_neq: "n < 2047 \<Longrightarrow> (of_nat n :: 11 word) \<noteq> 2047"
proof
  assume n: "n < 2047" and eq: "(of_nat n :: 11 word) = 2047"
  have "unat (of_nat n :: 11 word) = n"
    using n by (simp add: unat_of_nat)
  with eq n show False by simp
qed

lemma round_finite_is_double: "is_double (round_finite s P Q)"
proof (cases "P = 0")
  case True
  then show ?thesis by (simp add: round_finite_def is_double_def)
next
  case False
  define E where "E = max (Q + int (floorlog 2 P) - 53) (- 1074)"
  define M where "M = (if E \<le> Q then P * 2 ^ nat (Q - E) else round_even P (nat (E - Q)))"
  define E' where "E' = (if M = 2 ^ 53 then E + 1 else E)"
  define M' where "M' = (if M = 2 ^ 53 then 2 ^ 52 else M)"
  have r: "round_finite s P Q =
    (if M' < 2 ^ 52 then Num s 0 (of_nat M')
     else if 2047 \<le> E' + 1075 then Infty s
     else Num s (of_nat (nat (E' + 1075))) (of_nat (M' - 2 ^ 52)))"
    using False unfolding round_finite_def E_def M_def E'_def M'_def Let_def by simp
  have "(of_nat (nat (E' + 1075)) :: 11 word) \<noteq> 2047" if "\<not> 2047 \<le> E' + 1075"
    using that by (intro bexp_of_nat_neq) simp
  then show ?thesis
    unfolding r by (simp add: is_double_def)
qed

lemma fmul_is_double: "is_double (fmul a b)"
proof (cases a; cases b)
  fix s e f t e' f'
  assume "a = Num s e f" "b = Num t e' f'"
  then show ?thesis by (simp add: round_finite_is_double)
qed (simp_all add: is_double_def)

subsection \<open>Known products\<close>

text \<open>
  The model computes the products that IEEE-754 hardware computes, at the roundings
  that matter: \<open>3 * 3 = 9\<close> (exact); \<open>0.1 * 0.1 = 0.010000000000000002\<close> and
  \<open>0.1 * 3 = 0.30000000000000004\<close> (inexact); \<^verbatim>\<open>DBL_MAX * 2\<close> and \<open>- 1e200 * 1e200\<close>
  (overflow to an infinity); the smallest subnormal times \<open>0.5\<close> and \<open>1.5\<close> (ties, to
  the even neighbours \<open>0\<close> and twice the smallest subnormal); \<^verbatim>\<open>DBL_MIN * 0.5\<close> (a
  subnormal result); \<open>1e-200 * 1e-200\<close> (underflow to \<open>0\<close>); the square of the
  successor of \<open>1\<close>, and \<open>3\<close> times that successor (a tie, to the even significand).
\<close>

lemma floorlog_unique:
  assumes "2 ^ n \<le> P" "P < 2 ^ Suc n"
  shows "floorlog 2 P = Suc n"
proof -
  have "floorlog 2 P \<le> Suc n"
    using assms by (simp add: floorlog_le_iff)
  moreover have "Suc n \<le> floorlog 2 P"
    using assms by (intro floorlog_ge_SucI) simp_all
  ultimately show ?thesis by simp
qed

lemma fmul_three_three:
  "fmul (Num False 1024 2251799813685248) (Num False 1024 2251799813685248) = Num False 1026 562949953421312"
proof -
  have "floorlog 2 (significand 1024 2251799813685248 * significand 1024 2251799813685248) = Suc 105"
    by (rule floorlog_unique) (simp_all add: significand_def)
  then show ?thesis
    by (simp add: significand_def exponent_def round_finite_def round_even_def Let_def)
qed

lemma fmul_tenth_tenth:
  "fmul (Num False 1019 2702159776422298) (Num False 1019 2702159776422298) = Num False 1016 1261007895663740"
proof -
  have "floorlog 2 (significand 1019 2702159776422298 * significand 1019 2702159776422298) = Suc 105"
    by (rule floorlog_unique) (simp_all add: significand_def)
  then show ?thesis
    by (simp add: significand_def exponent_def round_finite_def round_even_def Let_def)
qed

lemma fmul_tenth_three:
  "fmul (Num False 1019 2702159776422298) (Num False 1024 2251799813685248) = Num False 1021 900719925474100"
proof -
  have "floorlog 2 (significand 1019 2702159776422298 * significand 1024 2251799813685248) = Suc 105"
    by (rule floorlog_unique) (simp_all add: significand_def)
  then show ?thesis
    by (simp add: significand_def exponent_def round_finite_def round_even_def Let_def)
qed

lemma fmul_max_two:
  "fmul (Num False 2046 4503599627370495) (Num False 1024 0) = Infty False"
proof -
  have "floorlog 2 (significand 2046 4503599627370495 * significand 1024 0) = Suc 104"
    by (rule floorlog_unique) (simp_all add: significand_def)
  then show ?thesis
    by (simp add: significand_def exponent_def round_finite_def round_even_def Let_def)
qed

lemma fmul_neg_overflow:
  "fmul (Num True 1687 1379993793290842) (Num False 1687 1379993793290842) = Infty True"
proof -
  have "floorlog 2 (significand 1687 1379993793290842 * significand 1687 1379993793290842) = Suc 104"
    by (rule floorlog_unique) (simp_all add: significand_def)
  then show ?thesis
    by (simp add: significand_def exponent_def round_finite_def round_even_def Let_def)
qed

lemma fmul_min_half:
  "fmul (Num False 0 1) (Num False 1022 0) = Num False 0 0"
proof -
  have "floorlog 2 (significand 0 1 * significand 1022 0) = Suc 52"
    by (rule floorlog_unique) (simp_all add: significand_def)
  then show ?thesis
    by (simp add: significand_def exponent_def round_finite_def round_even_def Let_def)
qed

lemma fmul_min_three_halves:
  "fmul (Num False 0 1) (Num False 1023 2251799813685248) = Num False 0 2"
proof -
  have "floorlog 2 (significand 0 1 * significand 1023 2251799813685248) = Suc 52"
    by (rule floorlog_unique) (simp_all add: significand_def)
  then show ?thesis
    by (simp add: significand_def exponent_def round_finite_def round_even_def Let_def)
qed

lemma fmul_min_normal_half:
  "fmul (Num False 1 0) (Num False 1022 0) = Num False 0 2251799813685248"
proof -
  have "floorlog 2 (significand 1 0 * significand 1022 0) = Suc 104"
    by (rule floorlog_unique) (simp_all add: significand_def)
  then show ?thesis
    by (simp add: significand_def exponent_def round_finite_def round_even_def Let_def)
qed

lemma fmul_underflow:
  "fmul (Num False 358 2390965701506988) (Num False 358 2390965701506988) = Num False 0 0"
proof -
  have "floorlog 2 (significand 358 2390965701506988 * significand 358 2390965701506988) = Suc 105"
    by (rule floorlog_unique) (simp_all add: significand_def)
  then show ?thesis
    by (simp add: significand_def exponent_def round_finite_def round_even_def Let_def)
qed

lemma fmul_ulp_ulp:
  "fmul (Num False 1023 1) (Num False 1023 1) = Num False 1023 2"
proof -
  have "floorlog 2 (significand 1023 1 * significand 1023 1) = Suc 104"
    by (rule floorlog_unique) (simp_all add: significand_def)
  then show ?thesis
    by (simp add: significand_def exponent_def round_finite_def round_even_def Let_def)
qed

lemma fmul_three_ulp:
  "fmul (Num False 1024 2251799813685248) (Num False 1023 1) = Num False 1024 2251799813685250"
proof -
  have "floorlog 2 (significand 1024 2251799813685248 * significand 1023 1) = Suc 104"
    by (rule floorlog_unique) (simp_all add: significand_def)
  then show ?thesis
    by (simp add: significand_def exponent_def round_finite_def round_even_def Let_def)
qed

subsection \<open>The tabulated values of the library\<close>



section \<open>Construction from rectangular coordinates\<close>

text \<open>
  Claim C8. For every four doubles \<open>x\<close>, \<open>y\<close>, \<open>z\<close>, \<open>t\<close>, infinities and NaN included,
  \<open>sbh_vec4_rect\<close> returns the vector whose slots 0, 1, 2, 3 are \<open>x\<close>, \<open>y\<close>, \<open>z\<close>, \<open>t\<close>
  as given, whatever the local variable held before; in particular the vector of
  \<open>1, 2, 3, 4\<close> has the slots \<open>1, 2, 3, 4\<close>.
\<close>

theorem sbh_vec4_rect_verbatim:
  "(\<exists>v. sbh_vec4_rect p x y z t = Some v
      \<and> load v 0 = Some x \<and> load v 1 = Some y \<and> load v 2 = Some z \<and> load v 3 = Some t
      \<and> v = \<lparr>dat = Array4 x y z t\<rparr>)
   \<and> sbh_vec4_rect p d_one d_two d_three d_four = Some \<lparr>dat = Array4 d_one d_two d_three d_four\<rparr>"
proof
  have "sbh_vec4_rect p x y z t = Some \<lparr>dat = Array4 x y z t\<rparr>"
    by (rule sbh_vec4_rect_value)
  then show "\<exists>v. sbh_vec4_rect p x y z t = Some v
      \<and> load v 0 = Some x \<and> load v 1 = Some y \<and> load v 2 = Some z \<and> load v 3 = Some t
      \<and> v = \<lparr>dat = Array4 x y z t\<rparr>"
    by (simp add: load_Array4)
  show "sbh_vec4_rect p d_one d_two d_three d_four = Some \<lparr>dat = Array4 d_one d_two d_three d_four\<rparr>"
    by (rule sbh_vec4_rect_value)
qed

section \<open>Construction from Schwarzschild coordinates\<close>

text \<open>
  Claim C1. For all doubles \<open>r\<close>, \<open>phi\<close>, \<open>theta\<close>, \<open>t\<close>,
  \<open>sbh_vec4_rect_from_schwarzschild\<close> returns a vector whose slot 0 is
  \<open>r * sin theta * cos phi\<close>, slot 1 is \<open>r * sin theta * sin phi\<close>, slot 2 is
  \<open>r * cos theta\<close> and slot 3 is \<open>t\<close>: \<open>theta\<close> is the polar angle and \<open>phi\<close> the azimuth,
  the sine and cosine are the library's, and each product is a double multiplication,
  taken from the left as C parses it.
\<close>

theorem from_schwarzschild_slots:
  "\<exists>v. sbh_vec4_rect_from_schwarzschild L p r phi theta t = Some v
     \<and> load v 0 = Some (fmul (fmul r (sin_d L theta)) (cos_d L phi))
     \<and> load v 1 = Some (fmul (fmul r (sin_d L theta)) (sin_d L phi))
     \<and> load v 2 = Some (fmul r (cos_d L theta))
     \<and> load v 3 = Some t"
proof (intro exI conjI)
  show "sbh_vec4_rect_from_schwarzschild L p r phi theta t =
      Some \<lparr>dat = Array4 (fmul (fmul r (sin_d L theta)) (cos_d L phi))
                         (fmul (fmul r (sin_d L theta)) (sin_d L phi))
                         (fmul r (cos_d L theta)) t\<rparr>"
    by (rule from_schwarzschild_value)
qed (simp_all add: load_Array4)

section \<open>The two conversions\<close>

text \<open>
  Claim C3. For every vector \<open>v\<close>, \<open>sbh_vec4_schwarzschild_to_rect\<close> returns what
  \<open>sbh_vec4_rect_from_schwarzschild\<close> returns on the four slots of \<open>v\<close> taken in order,
  and nothing else happens.
\<close>

theorem schwarzschild_to_rect_passes_through:
  "\<exists>r phi theta t.
     load v 0 = Some r \<and> load v 1 = Some phi \<and> load v 2 = Some theta \<and> load v 3 = Some t
     \<and> sbh_vec4_schwarzschild_to_rect L p v = sbh_vec4_rect_from_schwarzschild L p' r phi theta t"
proof -
  obtain r phi theta t where v: "v = \<lparr>dat = Array4 r phi theta t\<rparr>"
    by (rule sbh_vec4_cases)
  have "sbh_vec4_schwarzschild_to_rect L p v = sbh_vec4_rect_from_schwarzschild L p' r phi theta t"
    unfolding v by (simp only: schwarzschild_to_rect_value from_schwarzschild_value)
  then show ?thesis
    using v by (auto simp add: load_Array4)
qed

text \<open>
  Claim C4. For every vector \<open>v\<close>, \<open>sbh_vec4_convert_schwarzschild_to_rect\<close> leaves slot
  3 as it was, and the new slots 0, 1 and 2 are the products of the values that slots
  0, 1 and 2 held before the call: no assignment of the function reaches a value it
  reads.
\<close>

theorem convert_reads_before_writes:
  "\<exists>r phi theta t.
     v = \<lparr>dat = Array4 r phi theta t\<rparr>
     \<and> sbh_vec4_convert_schwarzschild_to_rect L v =
         Some \<lparr>dat = Array4 (fmul (fmul r (sin_d L theta)) (cos_d L phi))
                            (fmul (fmul r (sin_d L theta)) (sin_d L phi))
                            (fmul r (cos_d L theta)) t\<rparr>"
proof -
  obtain r phi theta t where v: "v = \<lparr>dat = Array4 r phi theta t\<rparr>"
    by (rule sbh_vec4_cases)
  then show ?thesis
    by (simp add: convert_schwarzschild_to_rect_value)
qed

text \<open>
  Claim C2. For every vector \<open>v\<close>, \<open>sbh_vec4_schwarzschild_to_rect\<close> on \<open>v\<close> and
  \<open>sbh_vec4_convert_schwarzschild_to_rect\<close> on a copy of \<open>v\<close> give the same slots 0, 1
  and 2, and slot 3 of both results is slot 3 of \<open>v\<close>.
\<close>

theorem to_rect_agrees_with_convert:
  "\<exists>a b. sbh_vec4_schwarzschild_to_rect L p v = Some a
     \<and> sbh_vec4_convert_schwarzschild_to_rect L v = Some b
     \<and> load a 0 = load b 0 \<and> load a 1 = load b 1 \<and> load a 2 = load b 2
     \<and> load a 3 = load v 3 \<and> load b 3 = load v 3"
proof -
  obtain r phi theta t where v: "v = \<lparr>dat = Array4 r phi theta t\<rparr>"
    by (rule sbh_vec4_cases)
  show ?thesis
    unfolding v
    by (simp add: schwarzschild_to_rect_value convert_schwarzschild_to_rect_value load_Array4)
qed

section \<open>Totality\<close>

text \<open>
  Claim C9. Each of the four operations returns a vector for every input, infinities
  and NaN included: no access leaves the array and there is no error result.
\<close>

theorem operations_total:
  "(\<exists>v. sbh_vec4_rect p x y z t = Some v)
   \<and> (\<exists>v. sbh_vec4_rect_from_schwarzschild L p r phi theta t = Some v)
   \<and> (\<exists>v. sbh_vec4_schwarzschild_to_rect L p q = Some v)
   \<and> (\<exists>v. sbh_vec4_convert_schwarzschild_to_rect L q = Some v)"
proof -
  obtain a b c d where q: "q = \<lparr>dat = Array4 a b c d\<rparr>"
    by (rule sbh_vec4_cases)
  show ?thesis
    unfolding q
    by (simp add: sbh_vec4_rect_value from_schwarzschild_value schwarzschild_to_rect_value
        convert_schwarzschild_to_rect_value)
qed

section \<open>The radial argument\<close>


section \<open>The origin\<close>

text \<open>
  Claim C7, as the code has it. When \<open>r\<close> is a zero and the sines and cosines of \<open>phi\<close>
  and \<open>theta\<close> are finite, as they are for finite angles, slots 0, 1 and 2 of
  \<open>sbh_vec4_rect_from_schwarzschild\<close> are zeros (of either sign), whatever \<open>t\<close> is.
\<close>

theorem from_schwarzschild_origin:
  assumes "is_zero r"
    and "is_finite (sin_d L theta)" and "is_finite (cos_d L theta)"
    and "is_finite (sin_d L phi)" and "is_finite (cos_d L phi)"
  shows "\<exists>x y z.
     sbh_vec4_rect_from_schwarzschild L p r phi theta t = Some \<lparr>dat = Array4 x y z t\<rparr>
     \<and> is_zero x \<and> is_zero y \<and> is_zero z"
proof -
  have "is_zero (fmul r (sin_d L theta))"
    using assms by (simp add: fmul_zero_left)
  then have "is_zero (fmul (fmul r (sin_d L theta)) (cos_d L phi))"
    and "is_zero (fmul (fmul r (sin_d L theta)) (sin_d L phi))"
    using assms by (simp_all add: fmul_zero_left)
  moreover have "is_zero (fmul r (cos_d L theta))"
    using assms by (simp add: fmul_zero_left)
  ultimately show ?thesis
    by (simp add: from_schwarzschild_value)
qed

theorem from_schwarzschild_origin_witness:
  "is_zero d_zero
   \<and> is_finite (sin_d libm_values d_zero) \<and> is_finite (cos_d libm_values d_zero)
   \<and> (\<exists>x y z.
     sbh_vec4_rect_from_schwarzschild libm_values \<lparr>dat = Array4 NaN NaN NaN NaN\<rparr>
       d_zero d_zero d_zero d_one = Some \<lparr>dat = Array4 x y z d_one\<rparr>
     \<and> is_zero x \<and> is_zero y \<and> is_zero z)"
  using from_schwarzschild_origin [of d_zero libm_values d_zero d_zero
      "\<lparr>dat = Array4 NaN NaN NaN NaN\<rparr>" d_one]
  by (simp add: libm_values_def tabulated_def is_zero_def is_finite_def d_zero_def d_one_def)

text \<open>
  The claim as the specification states it, for every \<open>phi\<close> and \<open>theta\<close>, fails at an
  angle that is NaN: the products are NaN, not zero.
\<close>

theorem from_schwarzschild_origin_counterexample:
  "sbh_vec4_rect_from_schwarzschild libm_values \<lparr>dat = Array4 NaN NaN NaN NaN\<rparr>
     d_zero d_zero NaN d_one = Some \<lparr>dat = Array4 NaN NaN NaN d_one\<rparr>
   \<and> \<not> is_zero NaN"
  by (simp add: from_schwarzschild_value libm_values_def tabulated_def is_zero_def d_zero_def
      d_pi_def)

section \<open>The poles\<close>




end
